theory Spec2Isabelle
  imports Complex_Main
begin

section \<open>Text overlay and save pipeline of \<^verbatim>\<open>app.py\<close>\<close>

text \<open>
  The script composes a caption onto a generated image (\<^verbatim>\<open>add_text_overlay\<close>) and
  saves the result under a drive folder (\<^verbatim>\<open>generate_and_save_image\<close>). Both functions
  are translated here statement by statement. What the script gets from libraries (the
  font loaders, the text measurement, the diffusion pipeline, saving and displaying) is
  not part of the script; it enters the model as the record \<open>env\<close>, and the theorems hold
  for every such environment.
\<close>

subsection \<open>Python values\<close>

text \<open>
  Exceptions are values. Only the class matters to the two handlers of the script:
  \<^verbatim>\<open>except IOError\<close> catches \<open>IOError\<close> (an alias of \<^verbatim>\<open>OSError\<close>), and
  \<^verbatim>\<open>except Exception\<close> catches \<open>IOError\<close> and every other subclass of
  \<^verbatim>\<open>Exception\<close> (\<open>StdException\<close>), but not the classes that derive from
  \<^verbatim>\<open>BaseException\<close> only, such as \<^verbatim>\<open>KeyboardInterrupt\<close> (\<open>SystemExiting\<close>).
  The string is what \<^verbatim>\<open>str(e)\<close> gives.
\<close>

datatype py_exception =
    IOError string
  | StdException string
  | SystemExiting string

fun str :: "py_exception \<Rightarrow> string" where
  "str (IOError m) = m"
| "str (StdException m) = m"
| "str (SystemExiting m) = m"

fun is_IOError :: "py_exception \<Rightarrow> bool" where
  "is_IOError (IOError m) = True"
| "is_IOError (StdException m) = False"
| "is_IOError (SystemExiting m) = False"

fun is_Exception :: "py_exception \<Rightarrow> bool" where
  "is_Exception (IOError m) = True"
| "is_Exception (StdException m) = True"
| "is_Exception (SystemExiting m) = False"

text \<open>\<^verbatim>\<open>str.startswith\<close> and \<^verbatim>\<open>str.endswith\<close>.\<close>

definition startswith :: "string \<Rightarrow> string \<Rightarrow> bool" where
  "startswith s p = (take (length p) s = p)"

definition endswith :: "string \<Rightarrow> string \<Rightarrow> bool" where
  "endswith s p = (length p \<le> length s \<and> drop (length s - length p) s = p)"

text \<open>
  \<^verbatim>\<open>os.path.join(a, b)\<close> of \<^verbatim>\<open>posixpath\<close> with two arguments: a second component that
  starts with the separator replaces the first one.
\<close>

definition os_path_join :: "string \<Rightarrow> string \<Rightarrow> string" where
  "os_path_join a b =
     (if startswith b ''/'' then b
      else if a = [] \<or> endswith a ''/'' then a @ b
      else a @ ''/'' @ b)"

subsection \<open>Images\<close>

text \<open>
  Coordinates handed to the drawing routines are Python numbers: \<open>y\<close> is an \<^verbatim>\<open>int\<close>,
  \<open>x\<close> is the result of the true division \<^verbatim>\<open>/ 2\<close>, a multiple of one half, which a
  float holds exactly. Both are rationals here.
\<close>

type_synonym point = "rat \<times> rat"

datatype font = BuiltinFont | TruetypeFont string nat

datatype fill = RGBA nat nat nat nat | Named string

text \<open>
  The pixel content of an image is what the library made of it: the content it came
  with, converted, and drawn on, in this order. The rasterisation itself is the
  library's.
\<close>

datatype raster =
    Source nat
  | Converted string raster
  | Rectangle raster point point fill
  | Text raster point string font fill

record pil_image =
  width :: nat
  height :: nat
  mode :: string
  raster :: raster

text \<open>
  Image objects live in a store: a reference is a number, \<open>next_ref\<close> is the first
  reference not yet given out. The world also holds what the script prints, the files
  it has written, what it has displayed and the prompts the pipeline was called with.
\<close>

record world =
  heap :: "nat \<Rightarrow> pil_image"
  next_ref :: nat
  stdout :: "string list"
  files :: "(string \<times> pil_image) list"
  displayed :: "string list"
  pipe_calls :: "string list"

text \<open>
  The libraries. \<open>load_default env k\<close> is the outcome of the call of
  \<^verbatim>\<open>ImageFont.load_default()\<close> at its \<open>k\<close>-th place in the function (line 62 is place
  0, line 69 is place 1); \<open>textbbox env font text\<close> is \<^verbatim>\<open>draw.textbbox((0, 0), text,
  font=font)\<close>, the tuple (left, top, right, bottom); \<open>pipe env\<close> is the module's
  global \<^verbatim>\<open>pipe\<close>, which is \<^verbatim>\<open>None\<close> when \<^verbatim>\<open>load_model\<close> failed, and otherwise
  maps a prompt to the list \<^verbatim>\<open>.images\<close> or raises; \<open>save\<close> and \<open>display\<close> say whether
  writing and showing a path raise.
\<close>

record env =
  load_default :: "nat \<Rightarrow> py_exception + font"
  truetype :: "string \<Rightarrow> nat \<Rightarrow> py_exception + font"
  textbbox :: "font \<Rightarrow> string \<Rightarrow> int \<times> int \<times> int \<times> int"
  pipe :: "(string \<Rightarrow> py_exception + pil_image list) option"
  save :: "string \<Rightarrow> pil_image \<Rightarrow> py_exception option"
  display :: "string \<Rightarrow> py_exception option"

definition print :: "world \<Rightarrow> string \<Rightarrow> world" where
  "print w s = w\<lparr>stdout := stdout w @ [s]\<rparr>"

text \<open>A new image object: it gets the next free reference.\<close>

definition alloc :: "world \<Rightarrow> pil_image \<Rightarrow> world \<times> nat" where
  "alloc w im = (w\<lparr>heap := (heap w)(next_ref w := im), next_ref := Suc (next_ref w)\<rparr>, next_ref w)"

text \<open>
  \<^verbatim>\<open>image.convert(m)\<close> returns a converted copy, a new object of the same size;
  the object it is called on stays as it is.
\<close>

definition convert :: "world \<Rightarrow> nat \<Rightarrow> string \<Rightarrow> world \<times> nat" where
  "convert w img m =
     alloc w \<lparr>width = width (heap w img), height = height (heap w img), mode = m,
              raster = Converted m (raster (heap w img))\<rparr>"

text \<open>
  \<^verbatim>\<open>draw.rectangle\<close> and \<^verbatim>\<open>draw.text\<close> change the image the \<^verbatim>\<open>Draw\<close> object was
  made for, in place.
\<close>

definition draw_rectangle :: "world \<Rightarrow> nat \<Rightarrow> point \<Rightarrow> point \<Rightarrow> fill \<Rightarrow> world" where
  "draw_rectangle w r p0 p1 c =
     w\<lparr>heap := (heap w)(r := (heap w r)\<lparr>raster := Rectangle (raster (heap w r)) p0 p1 c\<rparr>)\<rparr>"

definition draw_text :: "world \<Rightarrow> nat \<Rightarrow> point \<Rightarrow> string \<Rightarrow> font \<Rightarrow> fill \<Rightarrow> world" where
  "draw_text w r p s f c =
     w\<lparr>heap := (heap w)(r := (heap w r)\<lparr>raster := Text (raster (heap w r)) p s f c\<rparr>)\<rparr>"

subsection \<open>\<^verbatim>\<open>add_text_overlay\<close>\<close>

text \<open>
  Lines 60 to 69: the nested \<^verbatim>\<open>try\<close> blocks that choose the font. Each handler
  catches \<^verbatim>\<open>IOError\<close> only; the call in the innermost handler has no handler of its own.
\<close>

definition load_font :: "env \<Rightarrow> world \<Rightarrow> world \<times> (py_exception + font)" where
  "load_font env w =
     (case load_default env 0 of
        Inr font \<Rightarrow> (w, Inr font)
      | Inl e \<Rightarrow>
          if is_IOError e then
            (case truetype env ''/usr/share/fonts/truetype/dejavu/DejaVuSans-Bold.ttf'' 30 of
               Inr font \<Rightarrow> (w, Inr font)
             | Inl e' \<Rightarrow>
                 if is_IOError e' then
                   (let w1 = print w ''Error: Unable to load font, using basic font.''
                    in (w1, load_default env 1))
                 else (w, Inl e'))
          else (w, Inl e))"

text \<open>A loader outcome that is an exception the handlers of lines 63 and 67 catch.\<close>

fun fails_with_IOError :: "py_exception + font \<Rightarrow> bool" where
  "fails_with_IOError (Inl e) = is_IOError e"
| "fails_with_IOError (Inr f) = False"

text \<open>Lines 73 to 80: the measured size and the anchor of the caption.\<close>

definition text_width :: "int \<times> int \<times> int \<times> int \<Rightarrow> int" where
  "text_width bbox = (case bbox of (l, t, r, b) \<Rightarrow> r - l)"

definition text_height :: "int \<times> int \<times> int \<times> int \<Rightarrow> int" where
  "text_height bbox = (case bbox of (l, t, r, b) \<Rightarrow> b - t)"

definition anchor_x :: "nat \<Rightarrow> int \<Rightarrow> rat" where
  "anchor_x image_width tw = of_int (int image_width - tw) / 2"

definition anchor_y :: "nat \<Rightarrow> int \<Rightarrow> int" where
  "anchor_y image_height th = int image_height - th - 10"

definition background :: fill where
  "background = RGBA 0 0 0 128"

definition add_text_overlay :: "env \<Rightarrow> world \<Rightarrow> nat \<Rightarrow> string \<Rightarrow> world \<times> (py_exception + nat)" where
  "add_text_overlay env w img text =
     (case convert w img ''RGBA'' of (w1, pil_image) \<Rightarrow>
       (case load_font env w1 of
          (w2, Inl e) \<Rightarrow> (w2, Inl e)
        | (w2, Inr font) \<Rightarrow>
            (let bbox = textbbox env font text;
                 tw = text_width bbox;
                 th = text_height bbox;
                 image_width = width (heap w2 pil_image);
                 image_height = height (heap w2 pil_image);
                 x = anchor_x image_width tw;
                 y = anchor_y image_height th;
                 w3 = draw_rectangle w2 pil_image
                        (x - 10, of_int y - 10) (x + of_int tw + 10, of_int y + of_int th + 10)
                        background;
                 w4 = draw_text w3 pil_image (x, of_int y) text font (Named ''white'')
             in (w4, Inr pil_image))))"

subsection \<open>\<^verbatim>\<open>generate_and_save_image\<close>\<close>

text \<open>
  The body of the \<^verbatim>\<open>try\<close> block, lines 100 to 116. The second component is the
  exception the body raised, if it raised one; the world is the one at that moment.
  Calling \<^verbatim>\<open>pipe\<close> when it is \<^verbatim>\<open>None\<close> raises \<^verbatim>\<open>TypeError\<close>, and \<^verbatim>\<open>images[0]\<close> of
  an empty list raises \<^verbatim>\<open>IndexError\<close>.
\<close>

definition none_not_callable :: string where
  "none_not_callable = [CHR 0x27] @ ''NoneType'' @ [CHR 0x27] @ '' object is not callable''"

definition try_body :: "env \<Rightarrow> world \<Rightarrow> string \<Rightarrow> string \<Rightarrow> world \<times> py_exception option" where
  "try_body env w description file_name =
     (let w1 = print w ''Generating image, please wait...'' in
      case pipe env of
        None \<Rightarrow> (w1, Some (StdException none_not_callable))
      | Some p \<Rightarrow>
          (let w2 = w1\<lparr>pipe_calls := pipe_calls w1 @ [description]\<rparr> in
           case p description of
             Inl e \<Rightarrow> (w2, Some e)
           | Inr [] \<Rightarrow> (w2, Some (StdException ''list index out of range''))
           | Inr (im # rest) \<Rightarrow>
               (case alloc w2 im of (w3, img) \<Rightarrow>
                 (case add_text_overlay env w3 img description of
                    (w4, Inl e) \<Rightarrow> (w4, Some e)
                  | (w4, Inr image_with_text) \<Rightarrow>
                      (let drive_path = os_path_join ''/content/drive/My Drive'' file_name in
                       case save env drive_path (heap w4 image_with_text) of
                         Some e \<Rightarrow> (w4, Some e)
                       | None \<Rightarrow>
                           (let w5 = w4\<lparr>files := files w4 @ [(drive_path, heap w4 image_with_text)]\<rparr>;
                                w6 = print w5 (''Image saved to Google Drive as '' @ drive_path) in
                            case display env drive_path of
                              Some e \<Rightarrow> (w6, Some e)
                            | None \<Rightarrow>
                                (let w7 = w6\<lparr>displayed := displayed w6 @ [drive_path]\<rparr>
                                 in (print w7 (''Description: '' @ description), None))))))))"

text \<open>
  The first part of the body on its own, lines 101 to 109: the pipeline call, the
  overlay and the save. Its result is the path written, or the exception raised there.
\<close>

definition generate_overlay_save ::
    "env \<Rightarrow> world \<Rightarrow> string \<Rightarrow> string \<Rightarrow> world \<times> (py_exception + string)" where
  "generate_overlay_save env w description file_name =
     (let w1 = print w ''Generating image, please wait...'' in
      case pipe env of
        None \<Rightarrow> (w1, Inl (StdException none_not_callable))
      | Some p \<Rightarrow>
          (let w2 = w1\<lparr>pipe_calls := pipe_calls w1 @ [description]\<rparr> in
           case p description of
             Inl e \<Rightarrow> (w2, Inl e)
           | Inr [] \<Rightarrow> (w2, Inl (StdException ''list index out of range''))
           | Inr (im # rest) \<Rightarrow>
               (case alloc w2 im of (w3, img) \<Rightarrow>
                 (case add_text_overlay env w3 img description of
                    (w4, Inl e) \<Rightarrow> (w4, Inl e)
                  | (w4, Inr image_with_text) \<Rightarrow>
                      (let drive_path = os_path_join ''/content/drive/My Drive'' file_name in
                       case save env drive_path (heap w4 image_with_text) of
                         Some e \<Rightarrow> (w4, Inl e)
                       | None \<Rightarrow>
                           (w4\<lparr>files := files w4 @ [(drive_path, heap w4 image_with_text)]\<rparr>,
                            Inr drive_path))))))"

text \<open>
  The whole function. The result \<open>None\<close> is a normal return, \<open>Some e\<close> an exception that
  leaves the function.
\<close>

definition generate_and_save_image ::
    "env \<Rightarrow> world \<Rightarrow> string \<Rightarrow> string \<Rightarrow> world \<times> py_exception option" where
  "generate_and_save_image env w description file_name =
     (if description = [] then (print w ''Description is required!'', None)
      else
        (let file_name1 = (if \<not> endswith file_name ''.png'' then file_name @ ''.png'' else file_name) in
         case try_body env w description file_name1 of
           (w1, None) \<Rightarrow> (w1, None)
         | (w1, Some e) \<Rightarrow>
             if is_Exception e then (print w1 (''Error during image generation: '' @ str e), None)
             else (w1, Some e)))"

subsection \<open>Reading a result\<close>

text \<open>
  The image object a call of \<^verbatim>\<open>add_text_overlay\<close> returns, if it returns one, and
  on it the rectangle and the text drawn last.
\<close>

definition overlay_image :: "env \<Rightarrow> world \<Rightarrow> nat \<Rightarrow> string \<Rightarrow> pil_image option" where
  "overlay_image env w img text =
     (case add_text_overlay env w img text of
        (w1, Inl e) \<Rightarrow> None
      | (w1, Inr r) \<Rightarrow> Some (heap w1 r))"

fun last_rectangle :: "raster \<Rightarrow> (point \<times> point \<times> fill) option" where
  "last_rectangle (Source n) = None"
| "last_rectangle (Converted m base) = last_rectangle base"
| "last_rectangle (Rectangle base p0 p1 c) = Some (p0, p1, c)"
| "last_rectangle (Text base p s f c) = last_rectangle base"

fun last_text :: "raster \<Rightarrow> (point \<times> string \<times> font \<times> fill) option" where
  "last_text (Source n) = None"
| "last_text (Converted m base) = last_text base"
| "last_text (Rectangle base p0 p1 c) = last_text base"
| "last_text (Text base p s f c) = Some (p, s, f, c)"

definition overlay_plate :: "env \<Rightarrow> world \<Rightarrow> nat \<Rightarrow> string \<Rightarrow> (point \<times> point \<times> fill) option" where
  "overlay_plate env w img text =
     Option.bind (overlay_image env w img text) (last_rectangle \<circ> raster)"

definition overlay_text ::
    "env \<Rightarrow> world \<Rightarrow> nat \<Rightarrow> string \<Rightarrow> (point \<times> string \<times> font \<times> fill) option" where
  "overlay_text env w img text =
     Option.bind (overlay_image env w img text) (last_text \<circ> raster)"

subsection \<open>A concrete environment\<close>

text \<open>
  A 512 by 512 RGB image at reference 0, a font whose glyphs are 6 wide and 11 high
  with the top of the box at 3, and libraries that do not fail. The variants make the
  font loaders or the pipeline raise.
\<close>

definition demo_image :: pil_image where
  "demo_image = \<lparr>width = 512, height = 512, mode = ''RGB'', raster = Source 0\<rparr>"

definition demo_world :: world where
  "demo_world = \<lparr>heap = (\<lambda>r. demo_image), next_ref = 1, stdout = [], files = [],
                  displayed = [], pipe_calls = []\<rparr>"

definition demo_env :: env where
  "demo_env = \<lparr>load_default = (\<lambda>k. Inr BuiltinFont),
                truetype = (\<lambda>p n. Inr (TruetypeFont p n)),
                textbbox = (\<lambda>f s. (0, 3, 6 * int (length s), 14)),
                pipe = Some (\<lambda>d. Inr [demo_image]),
                save = (\<lambda>p im. None),
                display = (\<lambda>p. None)\<rparr>"

definition cannot_open :: "py_exception + font" where
  "cannot_open = Inl (IOError ''cannot open resource'')"

definition no_font_env :: env where
  "no_font_env = demo_env\<lparr>load_default := (\<lambda>k. cannot_open), truetype := (\<lambda>p n. cannot_open)\<rparr>"

definition last_resort_env :: env where
  "last_resort_env =
     demo_env\<lparr>load_default := (\<lambda>k. if k = 0 then cannot_open else Inr BuiltinFont),
              truetype := (\<lambda>p n. cannot_open)\<rparr>"

definition interrupted_env :: env where
  "interrupted_env = demo_env\<lparr>pipe := Some (\<lambda>d. Inl (SystemExiting ''KeyboardInterrupt''))\<rparr>"

definition out_of_memory_env :: env where
  "out_of_memory_env = demo_env\<lparr>pipe := Some (\<lambda>d. Inl (StdException ''CUDA out of memory''))\<rparr>"

section \<open>Properties\<close>

subsection \<open>Font selection and the shape of a call\<close>

text \<open>Which font is chosen, or which exception leaves, does not depend on the world.\<close>

lemma load_font_outcome: "snd (load_font env w) = snd (load_font env w')"
  by (simp add: load_font_def Let_def split: sum.splits)

text \<open>Choosing the font touches nothing but the printed output.\<close>

lemma load_font_frame:
  "heap (fst (load_font env w)) = heap w"
  "next_ref (fst (load_font env w)) = next_ref w"
  "files (fst (load_font env w)) = files w"
  "displayed (fst (load_font env w)) = displayed w"
  "pipe_calls (fst (load_font env w)) = pipe_calls w"
  by (simp_all add: load_font_def print_def Let_def split: sum.splits)

lemma convert_result:
  "snd (convert w img m) = next_ref w"
  "next_ref (fst (convert w img m)) = Suc (next_ref w)"
  "heap (fst (convert w img m)) =
     (heap w)(next_ref w := \<lparr>width = width (heap w img), height = height (heap w img), mode = m,
                              raster = Converted m (raster (heap w img))\<rparr>)"
  "stdout (fst (convert w img m)) = stdout w"
  "files (fst (convert w img m)) = files w"
  "displayed (fst (convert w img m)) = displayed w"
  "pipe_calls (fst (convert w img m)) = pipe_calls w"
  by (simp_all add: convert_def alloc_def)

text \<open>
  A call in which the font selection raises: the exception leaves the function after
  the copy was made, before anything is drawn.
\<close>

lemma add_text_overlay_raises:
  assumes "snd (load_font env w) = Inl e"
  shows "add_text_overlay env w img text =
           (fst (load_font env (fst (convert w img ''RGBA''))), Inl e)"
proof -
  have "snd (load_font env (fst (convert w img ''RGBA''))) = Inl e"
    using assms load_font_outcome [of env "fst (convert w img ''RGBA'')" w] by simp
  then show ?thesis
    by (cases "convert w img ''RGBA''"; cases "load_font env (fst (convert w img ''RGBA''))")
       (simp add: add_text_overlay_def)
qed

text \<open>
  A call in which a font is chosen returns the reference of the copy, and the store
  differs from the old one at that reference only, where it holds the composed image.
\<close>

lemma add_text_overlay_returns:
  assumes "snd (load_font env w) = Inr font"
  shows "snd (add_text_overlay env w img text) = Inr (next_ref w)"
    and "heap (fst (add_text_overlay env w img text)) =
      (heap w)(next_ref w :=
      \<lparr>width = width (heap w img), height = height (heap w img), mode = ''RGBA'',
       raster =
         Text (Rectangle (Converted ''RGBA'' (raster (heap w img)))
                 (anchor_x (width (heap w img)) (text_width (textbbox env font text)) - 10,
                  of_int (anchor_y (height (heap w img)) (text_height (textbbox env font text))) - 10)
                 (anchor_x (width (heap w img)) (text_width (textbbox env font text))
                    + of_int (text_width (textbbox env font text)) + 10,
                  of_int (anchor_y (height (heap w img)) (text_height (textbbox env font text)))
                    + of_int (text_height (textbbox env font text)) + 10)
                 background)
           (anchor_x (width (heap w img)) (text_width (textbbox env font text)),
            of_int (anchor_y (height (heap w img)) (text_height (textbbox env font text))))
           text font (Named ''white'')\<rparr>)" (is "?h = ?store")
proof -
  obtain w2 where lf: "load_font env (fst (convert w img ''RGBA'')) = (w2, Inr font)"
    using assms load_font_outcome [of env "fst (convert w img ''RGBA'')" w]
    by (cases "load_font env (fst (convert w img ''RGBA''))") simp
  have h2: "heap w2 = heap (fst (convert w img ''RGBA''))"
    using load_font_frame(1) [of env "fst (convert w img ''RGBA'')"] lf by simp
  obtain w1 where cv: "convert w img ''RGBA'' = (w1, next_ref w)"
    using convert_result(1) [of w img "''RGBA''"] by (cases "convert w img ''RGBA''") simp
  show "snd (add_text_overlay env w img text) = Inr (next_ref w)"
    using lf cv by (simp add: add_text_overlay_def Let_def)
  show "?h = ?store"
    using lf cv h2 convert_result(3) [of w img "''RGBA''"]
    by (simp add: add_text_overlay_def Let_def draw_rectangle_def draw_text_def)
qed

text \<open>The image a returning call hands back, and what was drawn on it last.\<close>

lemma overlay_image_returns:
  assumes "snd (load_font env w) = Inr font"
  shows "overlay_image env w img text =
      Some \<lparr>width = width (heap w img), height = height (heap w img), mode = ''RGBA'',
       raster =
         Text (Rectangle (Converted ''RGBA'' (raster (heap w img)))
                 (anchor_x (width (heap w img)) (text_width (textbbox env font text)) - 10,
                  of_int (anchor_y (height (heap w img)) (text_height (textbbox env font text))) - 10)
                 (anchor_x (width (heap w img)) (text_width (textbbox env font text))
                    + of_int (text_width (textbbox env font text)) + 10,
                  of_int (anchor_y (height (heap w img)) (text_height (textbbox env font text)))
                    + of_int (text_height (textbbox env font text)) + 10)
                 background)
           (anchor_x (width (heap w img)) (text_width (textbbox env font text)),
            of_int (anchor_y (height (heap w img)) (text_height (textbbox env font text))))
           text font (Named ''white'')\<rparr>"
  using add_text_overlay_returns [OF assms, of img "text"]
  by (cases "add_text_overlay env w img text") (simp add: overlay_image_def)

lemma overlay_plate_returns:
  assumes "snd (load_font env w) = Inr font"
  shows "overlay_plate env w img text =
     Some ((anchor_x (width (heap w img)) (text_width (textbbox env font text)) - 10,
                  of_int (anchor_y (height (heap w img)) (text_height (textbbox env font text))) - 10),
                 (anchor_x (width (heap w img)) (text_width (textbbox env font text))
                    + of_int (text_width (textbbox env font text)) + 10,
                  of_int (anchor_y (height (heap w img)) (text_height (textbbox env font text)))
                    + of_int (text_height (textbbox env font text)) + 10),
                 background)"
  by (simp add: overlay_plate_def overlay_image_returns [OF assms])

lemma overlay_text_returns:
  assumes "snd (load_font env w) = Inr font"
  shows "overlay_text env w img text =
     Some ((anchor_x (width (heap w img)) (text_width (textbbox env font text)),
            of_int (anchor_y (height (heap w img)) (text_height (textbbox env font text)))),
           text, font, Named ''white'')"
  by (simp add: overlay_text_def overlay_image_returns [OF assms])

lemma bbox_size:
  "textbbox env font text = (l, t, r, b) \<Longrightarrow> text_width (textbbox env font text) = r - l"
  "textbbox env font text = (l, t, r, b) \<Longrightarrow> text_height (textbbox env font text) = b - t"
  by (simp_all add: text_width_def text_height_def)

text \<open>Outside the store, a call changes the printed output only, and only by what the
  font selection prints.\<close>

lemma add_text_overlay_frame:
  "files (fst (add_text_overlay env w img text)) = files w"
  "displayed (fst (add_text_overlay env w img text)) = displayed w"
  "pipe_calls (fst (add_text_overlay env w img text)) = pipe_calls w"
  "stdout (fst (add_text_overlay env w img text)) = stdout (fst (load_font env w))"
  by (simp_all add: add_text_overlay_def convert_def alloc_def load_font_def print_def
        draw_rectangle_def draw_text_def Let_def split: sum.splits)

text \<open>In the store, a call changes the new reference only, whether it returns or raises.\<close>

lemma add_text_overlay_heap:
  "r \<noteq> next_ref w \<Longrightarrow> heap (fst (add_text_overlay env w img text)) r = heap w r"
proof (cases "snd (load_font env w)")
  case (Inl e)
  assume "r \<noteq> next_ref w"
  then show ?thesis
    using add_text_overlay_raises [OF Inl, of img "text"]
      load_font_frame(1) [of env "fst (convert w img ''RGBA'')"]
      convert_result(3) [of w img "''RGBA''"]
    by simp
next
  case (Inr font)
  assume "r \<noteq> next_ref w"
  then show ?thesis
    using add_text_overlay_returns(2) [OF Inr, of img "text"] by simp
qed

text \<open>The font selection in full: which tier answers, and when an exception leaves.\<close>

lemma load_font_chain:
  assumes "load_default env 0 = Inr f
         \<or> (fails_with_IOError (load_default env 0)
              \<and> truetype env ''/usr/share/fonts/truetype/dejavu/DejaVuSans-Bold.ttf'' 30 = Inr f)
         \<or> (fails_with_IOError (load_default env 0)
              \<and> fails_with_IOError (truetype env ''/usr/share/fonts/truetype/dejavu/DejaVuSans-Bold.ttf'' 30)
              \<and> load_default env 1 = Inr f)"
  shows "snd (load_font env w) = Inr f"
    and "stdout (fst (load_font env w)) =
           stdout w @
             (if fails_with_IOError (load_default env 0)
                 \<and> fails_with_IOError (truetype env ''/usr/share/fonts/truetype/dejavu/DejaVuSans-Bold.ttf'' 30)
              then [''Error: Unable to load font, using basic font.''] else [])"
  using assms
  by (auto simp add: load_font_def print_def Let_def split: sum.splits)

lemma load_font_raises_iff:
  "snd (load_font env w) = Inl e \<longleftrightarrow>
     (load_default env 0 = Inl e \<and> \<not> is_IOError e)
   \<or> (fails_with_IOError (load_default env 0)
        \<and> truetype env ''/usr/share/fonts/truetype/dejavu/DejaVuSans-Bold.ttf'' 30 = Inl e
        \<and> \<not> is_IOError e)
   \<or> (fails_with_IOError (load_default env 0)
        \<and> fails_with_IOError (truetype env ''/usr/share/fonts/truetype/dejavu/DejaVuSans-Bold.ttf'' 30)
        \<and> load_default env 1 = Inl e)"
  by (auto simp add: load_font_def Let_def split: sum.splits)

text \<open>
  A call in which some tier loads a font, the tiers before it having failed with an
  \<^verbatim>\<open>IOError\<close>: that font is chosen, the call returns, and the message is printed
  exactly when the first two tiers have failed.
\<close>

lemma font_fallback_chain:
  assumes "load_default env 0 = Inr f
         \<or> (fails_with_IOError (load_default env 0)
              \<and> truetype env ''/usr/share/fonts/truetype/dejavu/DejaVuSans-Bold.ttf'' 30 = Inr f)
         \<or> (fails_with_IOError (load_default env 0)
              \<and> fails_with_IOError (truetype env ''/usr/share/fonts/truetype/dejavu/DejaVuSans-Bold.ttf'' 30)
              \<and> load_default env 1 = Inr f)"
  shows "snd (load_font env w) = Inr f
       \<and> snd (add_text_overlay env w img text) = Inr (next_ref w)
       \<and> stdout (fst (add_text_overlay env w img text)) =
           stdout w @
             (if fails_with_IOError (load_default env 0)
                 \<and> fails_with_IOError (truetype env ''/usr/share/fonts/truetype/dejavu/DejaVuSans-Bold.ttf'' 30)
              then [''Error: Unable to load font, using basic font.''] else [])"
  using load_font_chain [OF assms, of w]
    add_text_overlay_returns(1) [of env w f img "text"]
    add_text_overlay_frame(4) [of env w img "text"]
  by simp

text \<open>The first two tiers fail, the last call loads the built-in font.\<close>

lemma font_fallback_chain_example:
  "fails_with_IOError (load_default last_resort_env 0)
   \<and> fails_with_IOError (truetype last_resort_env ''/usr/share/fonts/truetype/dejavu/DejaVuSans-Bold.ttf'' 30)
   \<and> load_default last_resort_env 1 = Inr BuiltinFont
   \<and> snd (add_text_overlay last_resort_env demo_world 0 ''a red bicycle'') = Inr 1
   \<and> stdout (fst (add_text_overlay last_resort_env demo_world 0 ''a red bicycle'')) =
        [''Error: Unable to load font, using basic font.'']"
proof -
  have h: "fails_with_IOError (load_default last_resort_env 0)
         \<and> fails_with_IOError (truetype last_resort_env ''/usr/share/fonts/truetype/dejavu/DejaVuSans-Bold.ttf'' 30)
         \<and> load_default last_resort_env 1 = Inr BuiltinFont"
    by (simp add: last_resort_env_def demo_env_def cannot_open_def)
  show ?thesis
    using h font_fallback_chain [of last_resort_env BuiltinFont demo_world 0 "''a red bicycle''"]
    by (simp add: demo_world_def)
qed

text \<open>
  A call in which a font is loaded returns a new image object, the next free reference,
  whose width and height are those of the input and whose mode is RGBA, whatever the
  mode of the input and whatever the caption.
\<close>

lemma add_text_overlay_size_mode:
  assumes "load_default env 0 = Inr font
         \<or> (fails_with_IOError (load_default env 0)
              \<and> truetype env ''/usr/share/fonts/truetype/dejavu/DejaVuSans-Bold.ttf'' 30 = Inr font)
         \<or> (fails_with_IOError (load_default env 0)
              \<and> fails_with_IOError (truetype env ''/usr/share/fonts/truetype/dejavu/DejaVuSans-Bold.ttf'' 30)
              \<and> load_default env 1 = Inr font)"
  shows "\<exists>w' r. add_text_overlay env w img text = (w', Inr r) \<and> r = next_ref w
           \<and> width (heap w' r) = width (heap w img)
           \<and> height (heap w' r) = height (heap w img)
           \<and> mode (heap w' r) = ''RGBA''"
proof -
  have "snd (load_font env w) = Inr font"
    using assms by (rule load_font_chain(1))
  then show ?thesis
    using add_text_overlay_returns [of env w font img "text"]
    by (cases "add_text_overlay env w img text") simp
qed

text \<open>The 512 by 512 RGB image with the caption \<^verbatim>\<open>a red bicycle\<close>, the first tier loading.\<close>

lemma add_text_overlay_size_mode_example:
  "load_default demo_env 0 = Inr BuiltinFont
   \<and> (\<exists>w' r. add_text_overlay demo_env demo_world 0 ''a red bicycle'' = (w', Inr r)
           \<and> r = 1 \<and> width (heap w' r) = 512 \<and> height (heap w' r) = 512
           \<and> mode (heap w' r) = ''RGBA'')"
proof -
  have h: "load_default demo_env 0 = Inr BuiltinFont"
    by (simp add: demo_env_def)
  show ?thesis
    using h add_text_overlay_size_mode [of demo_env BuiltinFont demo_world 0 "''a red bicycle''"]
    by (simp add: demo_world_def demo_image_def)
qed

subsection \<open>Strings and paths\<close>

lemma endswith_iff: "endswith s p \<longleftrightarrow> (\<exists>q. s = q @ p)"
proof
  assume "endswith s p"
  then have "s = take (length s - length p) s @ p"
    by (metis append_take_drop_id endswith_def)
  then show "\<exists>q. s = q @ p" ..
next
  assume "\<exists>q. s = q @ p"
  then show "endswith s p"
    by (auto simp add: endswith_def)
qed

lemma startswith_iff: "startswith s p \<longleftrightarrow> (\<exists>q. s = p @ q)"
proof
  assume "startswith s p"
  then have "s = p @ drop (length p) s"
    by (metis append_take_drop_id startswith_def)
  then show "\<exists>q. s = p @ q" ..
next
  assume "\<exists>q. s = p @ q"
  then show "startswith s p"
    by (auto simp add: startswith_def)
qed

lemma os_path_join_endswith: "endswith b p \<Longrightarrow> endswith (os_path_join a b) p"
  unfolding endswith_iff os_path_join_def
  by (metis append.assoc)

lemma startswith_png_name:
  "startswith (if endswith file_name ''.png'' then file_name else file_name @ ''.png'') ''/''
     = startswith file_name ''/''"
  by (cases file_name) (simp_all add: startswith_def)

subsection \<open>The body of the \<^verbatim>\<open>try\<close> block\<close>

lemma alloc_frame:
  "files (fst (alloc w im)) = files w"
  "displayed (fst (alloc w im)) = displayed w"
  "stdout (fst (alloc w im)) = stdout w"
  "pipe_calls (fst (alloc w im)) = pipe_calls w"
  by (simp_all add: alloc_def)

text \<open>The body writes at most one file, at the joined path.\<close>

lemma try_body_files:
  "files (fst (try_body env w d fn)) = files w
   \<or> (\<exists>im. files (fst (try_body env w d fn)) = files w @ [(os_path_join ''/content/drive/My Drive'' fn, im)])"
  by (simp add: try_body_def Let_def case_prod_unfold print_def alloc_frame add_text_overlay_frame
        split: option.splits sum.splits list.splits)

text \<open>
  If the body raises although displaying the path does not, it raised in the pipeline
  call, in the overlay or in the save: nothing was written and nothing displayed.
\<close>

lemma try_body_raised_early:
  assumes "try_body env w d fn = (w1, Some e)"
    and "display env (os_path_join ''/content/drive/My Drive'' fn) = None"
  shows "files w1 = files w \<and> displayed w1 = displayed w"
  using assms
  by (auto simp add: try_body_def Let_def case_prod_unfold print_def alloc_frame add_text_overlay_frame
        split: option.splits sum.splits list.splits)

text \<open>The body is its first part followed by the report and the display.\<close>

lemma try_body_split:
  "try_body env w description file_name =
     (case generate_overlay_save env w description file_name of
        (w4, Inl e) \<Rightarrow> (w4, Some e)
      | (w5, Inr drive_path) \<Rightarrow>
          (let w6 = print w5 (''Image saved to Google Drive as '' @ drive_path) in
           case display env drive_path of
             Some e \<Rightarrow> (w6, Some e)
           | None \<Rightarrow>
               (let w7 = w6\<lparr>displayed := displayed w6 @ [drive_path]\<rparr>
                in (print w7 (''Description: '' @ description), None))))"
  unfolding try_body_def generate_overlay_save_def Let_def
  by (auto split: option.split sum.split list.split prod.split)

text \<open>
  An exception raised in the first part is the exception of the body, and at that
  moment no file has been written and nothing displayed.
\<close>

lemma generate_overlay_save_raised:
  assumes "snd (generate_overlay_save env w description file_name) = Inl e"
  shows "try_body env w description file_name
           = (fst (generate_overlay_save env w description file_name), Some e)"
    and "files (fst (generate_overlay_save env w description file_name)) = files w"
    and "displayed (fst (generate_overlay_save env w description file_name)) = displayed w"
proof -
  show "try_body env w description file_name
           = (fst (generate_overlay_save env w description file_name), Some e)"
    using assms
    by (cases "generate_overlay_save env w description file_name") (simp add: try_body_split)
  show "files (fst (generate_overlay_save env w description file_name)) = files w"
    using assms
    by (auto simp add: generate_overlay_save_def Let_def case_prod_unfold print_def alloc_frame
          add_text_overlay_frame split: option.splits sum.splits list.splits)
  show "displayed (fst (generate_overlay_save env w description file_name)) = displayed w"
    by (simp add: generate_overlay_save_def Let_def case_prod_unfold print_def alloc_frame
          add_text_overlay_frame split: option.splits sum.splits list.splits)
qed

text \<open>Wherever the body raises, nothing has been displayed.\<close>

lemma try_body_raised_displayed:
  assumes "snd (try_body env w description file_name) = Some e"
  shows "displayed (fst (try_body env w description file_name)) = displayed w"
  using assms
  by (auto simp add: try_body_def Let_def case_prod_unfold print_def alloc_frame
        add_text_overlay_frame split: option.splits sum.splits list.splits)

lemma generate_files:
  "files (fst (generate_and_save_image env w description file_name)) = files w
   \<or> (\<exists>im. files (fst (generate_and_save_image env w description file_name)) =
         files w @ [(os_path_join ''/content/drive/My Drive''
                       (if endswith file_name ''.png'' then file_name else file_name @ ''.png''), im)])"
  using try_body_files [of env w description
      "if endswith file_name ''.png'' then file_name else file_name @ ''.png''"]
  by (cases "try_body env w description
               (if endswith file_name ''.png'' then file_name else file_name @ ''.png'')")
     (auto simp add: generate_and_save_image_def print_def Let_def split: option.splits)

text \<open>No exception of class \<^verbatim>\<open>Exception\<close> leaves \<^verbatim>\<open>generate_and_save_image\<close>.\<close>

lemma no_Exception_escapes:
  "snd (generate_and_save_image env w description file_name) = Some e \<Longrightarrow> \<not> is_Exception e"
  by (cases "try_body env w description
               (if endswith file_name ''.png'' then file_name else file_name @ ''.png'')")
     (auto simp add: generate_and_save_image_def Let_def split: if_splits option.splits)

text \<open>
  The path a file is written at: \<^verbatim>\<open>os.path.join\<close> of the root and the name, where
  the name is \<open>file_name\<close> if that ends in \<^verbatim>\<open>.png\<close> and \<open>file_name\<close> with \<^verbatim>\<open>.png\<close>
  appended if it does not. It always ends in \<^verbatim>\<open>.png\<close>.
\<close>

lemma save_path_png:
  assumes saved: "files (fst (generate_and_save_image env w description file_name)) \<noteq> files w"
  shows "\<exists>im name.
           files (fst (generate_and_save_image env w description file_name))
             = files w @ [(os_path_join ''/content/drive/My Drive'' name, im)]
         \<and> name = (if endswith file_name ''.png'' then file_name else file_name @ ''.png'')
         \<and> endswith (os_path_join ''/content/drive/My Drive'' name) ''.png''
         \<and> os_path_join ''/content/drive/My Drive'' name
             = (if startswith file_name ''/'' then name else ''/content/drive/My Drive/'' @ name)"
proof -
  let ?name = "if endswith file_name ''.png'' then file_name else file_name @ ''.png''"
  obtain im where f: "files (fst (generate_and_save_image env w description file_name))
             = files w @ [(os_path_join ''/content/drive/My Drive'' ?name, im)]"
    using saved generate_files [of env w description file_name] by blast
  have "endswith ?name ''.png''"
    by (simp add: endswith_iff)
  then have e: "endswith (os_path_join ''/content/drive/My Drive'' ?name) ''.png''"
    by (rule os_path_join_endswith)
  have "\<not> endswith ''/content/drive/My Drive'' ''/''"
    by (simp add: endswith_def)
  then have j: "os_path_join ''/content/drive/My Drive'' ?name
             = (if startswith file_name ''/'' then ?name else ''/content/drive/My Drive/'' @ ?name)"
    using startswith_png_name [of file_name] by (simp add: os_path_join_def)
  show ?thesis
    using f e j by blast
qed

text \<open>The name \<^verbatim>\<open>out\<close> is saved as \<^verbatim>\<open>/content/drive/My Drive/out.png\<close>.\<close>

lemma save_path_png_example:
  "files (fst (generate_and_save_image demo_env demo_world ''a cat'' ''out'')) \<noteq> files demo_world
   \<and> map fst (files (fst (generate_and_save_image demo_env demo_world ''a cat'' ''out'')))
       = [''/content/drive/My Drive/out.png'']"
proof -
  have h: "files (fst (generate_and_save_image demo_env demo_world ''a cat'' ''out'')) \<noteq> files demo_world"
    by (simp add: generate_and_save_image_def try_body_def add_text_overlay_def load_font_def
          convert_def alloc_def print_def draw_rectangle_def draw_text_def os_path_join_def
          endswith_def startswith_def demo_env_def demo_world_def Let_def)
  show ?thesis
    using h save_path_png [OF h] by (auto simp add: endswith_def startswith_def demo_world_def)
qed

subsection \<open>The concrete environment\<close>

lemma demo_font: "snd (load_font demo_env demo_world) = Inr BuiltinFont"
  by (simp add: load_font_def demo_env_def)

lemma demo_bbox: "textbbox demo_env BuiltinFont ''a red bicycle'' = (0, 3, 78, 14)"
  by (simp add: demo_env_def)

section \<open>The specified properties\<close>

text \<open>
  The properties of the drawing, C2 to C5 and C7, are stated for calls in which a font
  is chosen, \<open>snd (load_font env w) = Inr font\<close>, since they speak of the measured size
  of the caption in that font. They hold for every caption, the empty one included.
\<close>

text \<open>
  C1. For every input image and every caption \<^verbatim>\<open>add_text_overlay\<close> is to return a new
  image of the input's width and height in mode RGBA. It does so whenever a font is
  loaded (\<open>add_text_overlay_size_mode\<close>). When every loader call raises \<^verbatim>\<open>IOError\<close>,
  the unguarded call of line 69 raises after the copy has been made: no image comes
  back, and the RGBA copy of the input's size stays in the store, unreturned and
  undrawn.
\<close>

theorem no_image_when_fonts_fail:
  "overlay_image no_font_env demo_world 0 ''a red bicycle'' = None
   \<and> heap (fst (add_text_overlay no_font_env demo_world 0 ''a red bicycle'')) 1
       = \<lparr>width = 512, height = 512, mode = ''RGBA'', raster = Converted ''RGBA'' (Source 0)\<rparr>"
  by (simp add: overlay_image_def add_text_overlay_def convert_def alloc_def load_font_def
        Let_def no_font_env_def demo_env_def demo_world_def demo_image_def cannot_open_def
        print_def)

text \<open>
  C2, as the code has it. The caption's bottom edge, its anchor's \<open>y\<close> plus the measured
  height, lies exactly 10 pixels above the image's bottom edge; the bottom edge of the
  backing plate lies exactly 10 pixels below the caption's bottom edge, which is the
  image's bottom edge. On a 512 by 512 image with measured width \<open>W = r - l\<close> and height
  \<open>H = b - t\<close> the plate has the corners \<open>((512 - W) / 2 - 10, 512 - H - 20)\<close> and
  \<open>((512 - W) / 2 + W + 10, 512)\<close>.
\<close>

theorem backing_plate_margins:
  assumes font: "snd (load_font env w) = Inr font"
    and bbox: "textbbox env font text = (l, t, r, b)"
  shows "(\<exists>ax ay p0 x1 y1.
            overlay_text env w img text = Some ((ax, ay), text, font, Named ''white'')
          \<and> overlay_plate env w img text = Some (p0, (x1, y1), RGBA 0 0 0 128)
          \<and> ay + of_int (b - t) = of_int (int (height (heap w img))) - 10
          \<and> y1 = ay + of_int (b - t) + 10)
       \<and> (width (heap w img) = 512 \<and> height (heap w img) = 512 \<longrightarrow>
            overlay_plate env w img text =
              Some (((512 - of_int (r - l)) / 2 - 10, 512 - of_int (b - t) - 20),
                    ((512 - of_int (r - l)) / 2 + of_int (r - l) + 10, 512),
                    RGBA 0 0 0 128))"
proof -
  let ?x = "anchor_x (width (heap w img)) (r - l)"
  let ?y = "of_int (anchor_y (height (heap w img)) (b - t)) :: rat"
  have drawn: "overlay_text env w img text = Some ((?x, ?y), text, font, Named ''white'')"
    by (simp add: overlay_text_returns [OF font] bbox_size [OF bbox])
  have plate: "overlay_plate env w img text =
      Some ((?x - 10, ?y - 10), (?x + of_int (r - l) + 10, ?y + of_int (b - t) + 10), RGBA 0 0 0 128)"
    by (simp add: overlay_plate_returns [OF font] bbox_size [OF bbox] background_def)
  have bottom: "?y + of_int (b - t) = of_int (int (height (heap w img))) - 10"
    by (simp add: anchor_y_def)
  have "\<exists>ax ay p0 x1 y1.
            overlay_text env w img text = Some ((ax, ay), text, font, Named ''white'')
          \<and> overlay_plate env w img text = Some (p0, (x1, y1), RGBA 0 0 0 128)
          \<and> ay + of_int (b - t) = of_int (int (height (heap w img))) - 10
          \<and> y1 = ay + of_int (b - t) + 10"
    using drawn plate bottom by blast
  moreover have "overlay_plate env w img text =
              Some (((512 - of_int (r - l)) / 2 - 10, 512 - of_int (b - t) - 20),
                    ((512 - of_int (r - l)) / 2 + of_int (r - l) + 10, 512),
                    RGBA 0 0 0 128)"
    if "width (heap w img) = 512" and "height (heap w img) = 512"
    using that plate by (simp add: anchor_x_def anchor_y_def)
  ultimately show ?thesis by blast
qed

text \<open>With \<open>W = 78\<close> and \<open>H = 11\<close> the plate is \<open>(207, 481)\<close> to \<open>(305, 512)\<close>.\<close>

theorem backing_plate_margins_witness:
  "snd (load_font demo_env demo_world) = Inr BuiltinFont
   \<and> textbbox demo_env BuiltinFont ''a red bicycle'' = (0, 3, 78, 14)
   \<and> width (heap demo_world 0) = 512 \<and> height (heap demo_world 0) = 512
   \<and> overlay_plate demo_env demo_world 0 ''a red bicycle''
       = Some ((207, 481), (305, 512), RGBA 0 0 0 128)"
  using demo_font demo_bbox backing_plate_margins [OF demo_font demo_bbox, of 0]
  by (simp add: demo_world_def demo_image_def)

text \<open>
  The corners C2 names in its scenario, with \<open>512 - 10\<close> as the plate's bottom, are not
  the corners drawn: the plate ends at 512, ten pixels below the caption's bottom edge
  \<open>491 + 11 = 502\<close>, not above it.
\<close>

theorem plate_bottom_counterexample:
  "text_width (textbbox demo_env BuiltinFont ''a red bicycle'') = 78
   \<and> text_height (textbbox demo_env BuiltinFont ''a red bicycle'') = 11
   \<and> overlay_plate demo_env demo_world 0 ''a red bicycle''
       = Some ((207, 481), (305, 512), RGBA 0 0 0 128)
   \<and> overlay_plate demo_env demo_world 0 ''a red bicycle''
       \<noteq> Some (((512 - 78) / 2 - 10, 512 - 11 - 20), ((512 - 78) / 2 + 78 + 10, 512 - 10),
                RGBA 0 0 0 128)
   \<and> overlay_text demo_env demo_world 0 ''a red bicycle''
       = Some ((217, 491), ''a red bicycle'', BuiltinFont, Named ''white'')"
  by (simp add: overlay_plate_def overlay_text_def overlay_image_def add_text_overlay_def
        convert_def alloc_def load_font_def draw_rectangle_def draw_text_def
        text_width_def text_height_def anchor_x_def anchor_y_def background_def
        demo_env_def demo_world_def demo_image_def Let_def)

text \<open>
  C3. The horizontal coordinate of the text anchor is \<open>(image_width - text_width) / 2\<close>,
  so the centre of the caption, the anchor plus half the measured width, is the centre
  of the image; it stays within one pixel of it at whatever whole pixel column less than
  one pixel from the anchor the text is put. This needs no bound on the measured width.
\<close>

theorem caption_centred:
  assumes font: "snd (load_font env w) = Inr font"
    and bbox: "textbbox env font text = (l, t, r, b)"
  shows "\<exists>ax ay.
            overlay_text env w img text = Some ((ax, ay), text, font, Named ''white'')
          \<and> ax = of_int (int (width (heap w img)) - (r - l)) / 2
          \<and> ax + of_int (r - l) / 2 = of_int (int (width (heap w img))) / 2
          \<and> (\<forall>c::int. \<bar>of_int c - ax\<bar> < 1 \<longrightarrow>
                \<bar>of_int c + of_int (r - l) / 2 - of_int (int (width (heap w img))) / 2\<bar> < (1::rat))"
proof -
  let ?x = "anchor_x (width (heap w img)) (r - l)"
  let ?y = "of_int (anchor_y (height (heap w img)) (b - t)) :: rat"
  have drawn: "overlay_text env w img text = Some ((?x, ?y), text, font, Named ''white'')"
    by (simp add: overlay_text_returns [OF font] bbox_size [OF bbox])
  have x: "?x = of_int (int (width (heap w img)) - (r - l)) / 2"
    by (simp add: anchor_x_def)
  have centre: "?x + of_int (r - l) / 2 = of_int (int (width (heap w img))) / 2"
    by (simp add: anchor_x_def diff_divide_distrib)
  have snap: "\<bar>of_int c + of_int (r - l) / 2 - of_int (int (width (heap w img))) / 2\<bar> < (1::rat)"
    if "\<bar>of_int c - ?x\<bar> < 1" for c :: int
    using that centre by linarith
  show ?thesis
    using drawn x centre snap by blast
qed

text \<open>The anchor of \<^verbatim>\<open>a red bicycle\<close> is at \<open>x = 217\<close>, and \<open>217 + 39 = 256\<close>.\<close>

theorem caption_centred_witness:
  "snd (load_font demo_env demo_world) = Inr BuiltinFont
   \<and> textbbox demo_env BuiltinFont ''a red bicycle'' = (0, 3, 78, 14)
   \<and> (\<exists>ay. overlay_text demo_env demo_world 0 ''a red bicycle''
             = Some ((217, ay), ''a red bicycle'', BuiltinFont, Named ''white''))
   \<and> (217 :: rat) + 78 / 2 = 512 / 2"
  using demo_font demo_bbox caption_centred [OF demo_font demo_bbox, of 0]
  by (auto simp add: demo_world_def demo_image_def)

text \<open>
  C4. The vertical coordinate of the text anchor is \<open>image_height - text_height - 10\<close>
  with \<open>text_height = bottom - top\<close> of the measured box. The length of the caption does
  not enter: every caption measured with the same top and bottom gets the same \<open>y\<close>.
\<close>

theorem caption_bottom_anchor:
  assumes font: "snd (load_font env w) = Inr font"
    and bbox: "textbbox env font text = (l, t, r, b)"
  shows "(\<exists>ax. overlay_text env w img text =
            Some ((ax, of_int (int (height (heap w img)) - (b - t) - 10)), text, font, Named ''white''))
       \<and> (\<forall>text2 l2 r2. textbbox env font text2 = (l2, t, r2, b) \<longrightarrow>
            (\<exists>ax2. overlay_text env w img text2 =
               Some ((ax2, of_int (int (height (heap w img)) - (b - t) - 10)), text2, font, Named ''white'')))"
proof -
  have "\<exists>ax. overlay_text env w img s =
            Some ((ax, of_int (int (height (heap w img)) - (b - t) - 10)), s, font, Named ''white'')"
    if "textbbox env font s = (l2, t, r2, b)" for s l2 r2
    by (simp add: overlay_text_returns [OF font] bbox_size(2) [OF that] anchor_y_def)
  then show ?thesis
    using bbox by blast
qed

text \<open>\<^verbatim>\<open>a red bicycle\<close> and \<^verbatim>\<open>a cat\<close> are both anchored at \<open>y = 491\<close>.\<close>

theorem caption_bottom_anchor_witness:
  "snd (load_font demo_env demo_world) = Inr BuiltinFont
   \<and> textbbox demo_env BuiltinFont ''a red bicycle'' = (0, 3, 78, 14)
   \<and> textbbox demo_env BuiltinFont ''a cat'' = (0, 3, 30, 14)
   \<and> (\<exists>ax. overlay_text demo_env demo_world 0 ''a red bicycle''
             = Some ((ax, 491), ''a red bicycle'', BuiltinFont, Named ''white''))
   \<and> (\<exists>ax. overlay_text demo_env demo_world 0 ''a cat''
             = Some ((ax, 491), ''a cat'', BuiltinFont, Named ''white''))"
proof -
  have c: "textbbox demo_env BuiltinFont ''a cat'' = (0, 3, 30, 14)"
    by (simp add: demo_env_def)
  show ?thesis
    using demo_font demo_bbox c caption_bottom_anchor [OF demo_font demo_bbox, of 0]
    by (simp add: demo_world_def demo_image_def)
qed

text \<open>
  C5. On the converted copy the call draws one rectangle, from \<open>(x - 10, y - 10)\<close> to
  \<open>(x + text_width + 10, y + text_height + 10)\<close>, filled with the RGBA colour
  \<open>(0, 0, 0, 128)\<close>, and then, on top of it, the caption in white at the anchor \<open>(x, y)\<close>;
  nothing else is drawn.
\<close>

theorem overlay_draws_plate_then_text:
  assumes font: "snd (load_font env w) = Inr font"
    and bbox: "textbbox env font text = (l, t, r, b)"
    and x: "x = of_int (int (width (heap w img)) - (r - l)) / 2"
    and y: "y = of_int (int (height (heap w img)) - (b - t) - 10)"
  shows "\<exists>im. overlay_image env w img text = Some im
          \<and> raster im =
              Text (Rectangle (Converted ''RGBA'' (raster (heap w img)))
                      (x - 10, y - 10) (x + of_int (r - l) + 10, y + of_int (b - t) + 10)
                      (RGBA 0 0 0 128))
                (x, y) text font (Named ''white'')"
  by (simp add: overlay_image_returns [OF font] bbox_size [OF bbox] x y
        anchor_x_def anchor_y_def background_def)

text \<open>The content of the image returned for \<^verbatim>\<open>a red bicycle\<close>.\<close>

theorem overlay_draws_plate_then_text_witness:
  "snd (load_font demo_env demo_world) = Inr BuiltinFont
   \<and> textbbox demo_env BuiltinFont ''a red bicycle'' = (0, 3, 78, 14)
   \<and> (217 :: rat) = of_int (int (width (heap demo_world 0)) - (78 - 0)) / 2
   \<and> (491 :: rat) = of_int (int (height (heap demo_world 0)) - (14 - 3) - 10)
   \<and> (\<exists>im. overlay_image demo_env demo_world 0 ''a red bicycle'' = Some im
        \<and> raster im =
            Text (Rectangle (Converted ''RGBA'' (Source 0)) (207, 481) (305, 512) (RGBA 0 0 0 128))
              (217, 491) ''a red bicycle'' BuiltinFont (Named ''white''))"
proof -
  have x: "(217 :: rat) = of_int (int (width (heap demo_world 0)) - (78 - 0)) / 2"
    by (simp add: demo_world_def demo_image_def)
  have y: "(491 :: rat) = of_int (int (height (heap demo_world 0)) - (14 - 3) - 10)"
    by (simp add: demo_world_def demo_image_def)
  show ?thesis
    using demo_font demo_bbox x y overlay_draws_plate_then_text [OF demo_font demo_bbox x y]
    by (simp add: demo_world_def demo_image_def)
qed

text \<open>
  C6. Font resolution is meant to let no exception out of \<^verbatim>\<open>add_text_overlay\<close>: line 68
  prints that a basic font is used, and the comment of line 69 says so. The call of
  line 69 repeats that of line 62 and has no handler, so when every loader call raises
  \<^verbatim>\<open>IOError\<close> the message is printed and the \<^verbatim>\<open>IOError\<close> of the last call leaves the
  function: no font is chosen and no image comes back.
\<close>

theorem font_failure_escapes:
  "snd (add_text_overlay no_font_env demo_world 0 ''a red bicycle'')
     = Inl (IOError ''cannot open resource'')
   \<and> stdout (fst (add_text_overlay no_font_env demo_world 0 ''a red bicycle''))
       = [''Error: Unable to load font, using basic font.'']"
  by (simp add: add_text_overlay_def convert_def alloc_def load_font_def Let_def
        no_font_env_def demo_env_def demo_world_def cannot_open_def print_def)

text \<open>
  C7. The bottom edge of the backing rectangle is at \<open>y + text_height + 10\<close>, which is
  the height of the image: the plate reaches the bottom edge of the image, with no
  margin below it.
\<close>

theorem plate_abuts_bottom:
  assumes font: "snd (load_font env w) = Inr font"
  shows "(\<exists>p0 x1. overlay_plate env w img text =
            Some (p0, (x1, of_int (int (height (heap w img)))), RGBA 0 0 0 128))
       \<and> (of_int (anchor_y (height (heap w img)) (text_height (textbbox env font text)))
            + of_int (text_height (textbbox env font text)) + 10
          = (of_int (int (height (heap w img))) :: rat))"
  by (simp add: overlay_plate_returns [OF font] anchor_y_def background_def)

text \<open>On the 512 high image the plate ends at 512.\<close>

theorem plate_abuts_bottom_witness:
  "snd (load_font demo_env demo_world) = Inr BuiltinFont
   \<and> (\<exists>p0 x1. overlay_plate demo_env demo_world 0 ''a red bicycle''
        = Some (p0, (x1, 512), RGBA 0 0 0 128))"
  using demo_font plate_abuts_bottom [OF demo_font, of 0 "''a red bicycle''"]
  by (simp add: demo_world_def demo_image_def)

text \<open>
  C8. \<^verbatim>\<open>add_text_overlay\<close> does not change its input: the image object it was given
  is afterwards what it was before, as is every other object of the store but the new
  copy, and the reference it returns is not the one it was given. This holds whether the
  call returns or raises.
\<close>

theorem input_not_mutated:
  assumes live: "img < next_ref w"
  shows "heap (fst (add_text_overlay env w img text)) img = heap w img
       \<and> (\<forall>r. r \<noteq> next_ref w \<longrightarrow> heap (fst (add_text_overlay env w img text)) r = heap w r)
       \<and> (\<forall>r. snd (add_text_overlay env w img text) = Inr r \<longrightarrow> r = next_ref w \<and> r \<noteq> img)"
proof -
  have "snd (add_text_overlay env w img text) = Inr r \<Longrightarrow> r = next_ref w" for r
  proof (cases "snd (load_font env w)")
    case (Inl e)
    assume "snd (add_text_overlay env w img text) = Inr r"
    then show ?thesis using add_text_overlay_raises [OF Inl, of img "text"] by simp
  next
    case (Inr font)
    assume "snd (add_text_overlay env w img text) = Inr r"
    then show ?thesis using add_text_overlay_returns(1) [OF Inr, of img "text"] by simp
  qed
  then show ?thesis
    using live add_text_overlay_heap [of _ w env img "text"] by auto
qed

text \<open>The image at reference 0 is still the 512 by 512 RGB image; the result is at 1.\<close>

theorem input_not_mutated_witness:
  "0 < next_ref demo_world
   \<and> heap (fst (add_text_overlay demo_env demo_world 0 ''a red bicycle'')) 0 = demo_image
   \<and> snd (add_text_overlay demo_env demo_world 0 ''a red bicycle'') = Inr 1"
proof -
  have live: "0 < next_ref demo_world"
    by (simp add: demo_world_def)
  have ret: "snd (add_text_overlay demo_env demo_world 0 ''a red bicycle'') = Inr 1"
    by (simp add: add_text_overlay_def convert_def alloc_def load_font_def Let_def
          demo_env_def demo_world_def)
  show ?thesis
    using live ret input_not_mutated [OF live, of demo_env "''a red bicycle''"]
    by (simp add: demo_world_def)
qed

text \<open>
  C9. The save path is meant to lie under the root \<^verbatim>\<open>/content/drive/My Drive\<close> (line
  107 says the image is saved to the drive, and line 110 prints so) and to end in
  \<^verbatim>\<open>.png\<close>. A file name that starts with a slash makes \<^verbatim>\<open>os.path.join\<close> drop the root:
  the name \<^verbatim>\<open>/tmp/out\<close> is saved as \<^verbatim>\<open>/tmp/out.png\<close>, outside the root, and the message
  printed names that path as the place on the drive.
\<close>

theorem save_path_absolute_name:
  "map fst (files (fst (generate_and_save_image demo_env demo_world ''a cat'' ''/tmp/out'')))
     = [''/tmp/out.png'']
   \<and> \<not> startswith ''/tmp/out.png'' ''/content/drive/My Drive''
   \<and> stdout (fst (generate_and_save_image demo_env demo_world ''a cat'' ''/tmp/out''))
       = [''Generating image, please wait...'',
          ''Image saved to Google Drive as /tmp/out.png'',
          ''Description: a cat'']"
  by (simp add: generate_and_save_image_def try_body_def add_text_overlay_def load_font_def
          convert_def alloc_def print_def draw_rectangle_def draw_text_def os_path_join_def
          endswith_def startswith_def demo_env_def demo_world_def Let_def)

text \<open>
  C10, as the code has it. For a description that is not empty: an exception of class
  \<^verbatim>\<open>Exception\<close> raised anywhere in the \<^verbatim>\<open>try\<close> block is not raised again; the function
  returns after printing \<^verbatim>\<open>Error during image generation:\<close> and the exception's text,
  and nothing has been displayed. If the exception was raised in the generation, the
  overlay or the save, then moreover no file has been written. For the empty
  description the function prints \<^verbatim>\<open>Description is required!\<close> and returns, and the
  rest of the world, the record of pipeline calls included, is as before.
\<close>

theorem failures_reported:
  "(description \<noteq> [] \<and> is_Exception e
      \<and> name = (if endswith file_name ''.png'' then file_name else file_name @ ''.png'')
      \<and> snd (try_body env w description name) = Some e
     \<longrightarrow> snd (generate_and_save_image env w description file_name) = None
       \<and> stdout (fst (generate_and_save_image env w description file_name))
           = stdout (fst (try_body env w description name)) @ [''Error during image generation: '' @ str e]
       \<and> displayed (fst (generate_and_save_image env w description file_name)) = displayed w)
   \<and> (description \<noteq> [] \<and> is_Exception e
      \<and> name = (if endswith file_name ''.png'' then file_name else file_name @ ''.png'')
      \<and> snd (generate_overlay_save env w description name) = Inl e
     \<longrightarrow> snd (generate_and_save_image env w description file_name) = None
       \<and> stdout (fst (generate_and_save_image env w description file_name))
           = stdout (fst (generate_overlay_save env w description name))
               @ [''Error during image generation: '' @ str e]
       \<and> files (fst (generate_and_save_image env w description file_name)) = files w
       \<and> displayed (fst (generate_and_save_image env w description file_name)) = displayed w)
   \<and> generate_and_save_image env w [] file_name
       = (w\<lparr>stdout := stdout w @ [''Description is required!'']\<rparr>, None)"
proof -
  have caught: "generate_and_save_image env w description file_name
                  = (print w1 (''Error during image generation: '' @ str e), None)"
    if "description \<noteq> []" and "is_Exception e"
      and "name = (if endswith file_name ''.png'' then file_name else file_name @ ''.png'')"
      and "try_body env w description name = (w1, Some e)" for w1
    using that by (auto simp add: generate_and_save_image_def)
  have anywhere: "snd (generate_and_save_image env w description file_name) = None
       \<and> stdout (fst (generate_and_save_image env w description file_name))
           = stdout (fst (try_body env w description name)) @ [''Error during image generation: '' @ str e]
       \<and> displayed (fst (generate_and_save_image env w description file_name)) = displayed w"
    if d: "description \<noteq> []" and e: "is_Exception e"
      and n: "name = (if endswith file_name ''.png'' then file_name else file_name @ ''.png'')"
      and r: "snd (try_body env w description name) = Some e"
  proof -
    have b: "try_body env w description name = (fst (try_body env w description name), Some e)"
      using r by (cases "try_body env w description name") simp
    show ?thesis
      using caught [OF d e n b] try_body_raised_displayed [OF r] by (simp add: print_def)
  qed
  have early: "snd (generate_and_save_image env w description file_name) = None
       \<and> stdout (fst (generate_and_save_image env w description file_name))
           = stdout (fst (generate_overlay_save env w description name))
               @ [''Error during image generation: '' @ str e]
       \<and> files (fst (generate_and_save_image env w description file_name)) = files w
       \<and> displayed (fst (generate_and_save_image env w description file_name)) = displayed w"
    if d: "description \<noteq> []" and e: "is_Exception e"
      and n: "name = (if endswith file_name ''.png'' then file_name else file_name @ ''.png'')"
      and r: "snd (generate_overlay_save env w description name) = Inl e"
    using caught [OF d e n generate_overlay_save_raised(1) [OF r]]
      generate_overlay_save_raised(2,3) [OF r]
    by (simp add: print_def)
  have "generate_and_save_image env w [] file_name
       = (w\<lparr>stdout := stdout w @ [''Description is required!'']\<rparr>, None)"
    by (simp add: generate_and_save_image_def print_def)
  with anywhere early show ?thesis by blast
qed

text \<open>The pipeline runs out of memory: the message is printed and nothing is saved.\<close>

theorem failures_reported_witness:
  "''a cat'' \<noteq> [] \<and> is_Exception (StdException ''CUDA out of memory'')
   \<and> snd (try_body out_of_memory_env demo_world ''a cat'' ''out.png'') = Some (StdException ''CUDA out of memory'')
   \<and> snd (generate_overlay_save out_of_memory_env demo_world ''a cat'' ''out.png'')
       = Inl (StdException ''CUDA out of memory'')
   \<and> snd (generate_and_save_image out_of_memory_env demo_world ''a cat'' ''out'') = None
   \<and> stdout (fst (generate_and_save_image out_of_memory_env demo_world ''a cat'' ''out''))
       = [''Generating image, please wait...'', ''Error during image generation: CUDA out of memory'']
   \<and> files (fst (generate_and_save_image out_of_memory_env demo_world ''a cat'' ''out'')) = []
   \<and> displayed (fst (generate_and_save_image out_of_memory_env demo_world ''a cat'' ''out'')) = []
   \<and> generate_and_save_image out_of_memory_env demo_world [] ''out''
       = (demo_world\<lparr>stdout := [''Description is required!'']\<rparr>, None)"
proof -
  have r: "snd (try_body out_of_memory_env demo_world ''a cat'' ''out.png'')
             = Some (StdException ''CUDA out of memory'')"
    by (simp add: try_body_def out_of_memory_env_def demo_env_def Let_def)
  have g: "snd (generate_overlay_save out_of_memory_env demo_world ''a cat'' ''out.png'')
             = Inl (StdException ''CUDA out of memory'')"
    by (simp add: generate_overlay_save_def out_of_memory_env_def demo_env_def Let_def)
  have o: "stdout (fst (generate_overlay_save out_of_memory_env demo_world ''a cat'' ''out.png''))
             = [''Generating image, please wait...'']"
    by (simp add: generate_overlay_save_def out_of_memory_env_def demo_env_def demo_world_def
          print_def Let_def)
  have t: "stdout (fst (try_body out_of_memory_env demo_world ''a cat'' ''out.png''))
             = [''Generating image, please wait...'']"
    by (simp add: try_body_def out_of_memory_env_def demo_env_def demo_world_def
          print_def Let_def)
  have d: "files demo_world = [] \<and> displayed demo_world = [] \<and> stdout demo_world = []"
    by (simp add: demo_world_def)
  show ?thesis
    using r g o t d
      failures_reported [of "''a cat''" "StdException ''CUDA out of memory''" "''out.png''" "''out''"
        out_of_memory_env demo_world]
    by (simp add: endswith_def)
qed

text \<open>
  A \<^verbatim>\<open>KeyboardInterrupt\<close> raised by the pipeline is not of class \<^verbatim>\<open>Exception\<close>: the
  handler does not catch it, and it leaves the function.
\<close>

theorem interrupt_escapes:
  "snd (generate_and_save_image interrupted_env demo_world ''a cat'' ''out.png'')
     = Some (SystemExiting ''KeyboardInterrupt'')"
  by (simp add: generate_and_save_image_def try_body_def interrupted_env_def demo_env_def
        endswith_def Let_def)

end
